theory Spec2Isabelle
  imports Complex_Main
begin

section \<open>Energia: tariff cost, VAT and offer comparison (src/App.tsx)\<close>

text \<open>
  The calculator of \<^verbatim>\<open>src/App.tsx\<close> works on the TypeScript type \<^verbatim>\<open>number\<close>.
  Finite numbers are embedded as \<^typ>\<open>real\<close>. \<open>calculateWithVat\<close> below computes
  with exact arithmetic; \<open>calculateWithVatRounded\<close> is the same function with the
  rounding of every operation as a parameter, and \<open>binary64\<close> is the rounding of
  IEEE-754 doubles. Overflow and the sign of zero are not modelled. The one place where
  the source can leave the finite numbers from finite inputs, the division
  \<^verbatim>\<open>365 / billData.billingPeriodDays\<close>, is modelled on the type \<open>number\<close> below,
  which adds the two infinities and NaN.
\<close>

subsection \<open>Data model\<close>

text \<open>
  \<^verbatim>\<open>BillData\<close> and \<^verbatim>\<open>NewOfferData\<close> (declared in \<^verbatim>\<open>types.ts\<close>, used all
  over \<^verbatim>\<open>App.tsx\<close>). The two current unit prices are optional
  (\<^verbatim>\<open>currentPowerPricePerDay?: number\<close>); the source reads them as
  \<^verbatim>\<open>billData.currentPowerPricePerDay || 0\<close>. The supplier name is optional too.
\<close>

record BillData =
  monthlyConsumptionKwh :: real
  contractedPowerKva :: real
  audiovisualTax :: real
  dgegTax :: real
  ieceTax :: real
  socialTariff :: real
  totalAmount :: real
  billingPeriodDays :: real
  currentPowerPricePerDay :: "real option"
  currentEnergyPricePerKwh :: "real option"

record NewOfferData =
  supplierName :: "string option"
  powerPricePerDay :: real
  energyPricePerKwh :: real

text \<open>The \<^verbatim>\<open>taxes\<close> argument of \<^verbatim>\<open>calculateWithVat\<close>.\<close>

record Taxes =
  cav :: real
  dgeg :: real
  iec :: real
  social :: real

text \<open>
  The object returned by \<^verbatim>\<open>calculateWithVat\<close>: \<^verbatim>\<open>{base, vat, total, components:
  {energy, power, taxes}}\<close>, each component again \<^verbatim>\<open>{base, vat, total}\<close>. The field
  \<^verbatim>\<open>power\<close> is written \<open>power'\<close>, since \<open>power\<close> is exponentiation in HOL.
\<close>

record Amounts =
  base :: real
  vat :: real
  total :: real

record Components =
  energy :: Amounts
  power' :: Amounts
  taxes :: Amounts

record CostBreakdown = Amounts +
  components :: Components

subsection \<open>calculateWithVat\<close>

definition IVA_LOW :: real where
  "IVA_LOW = 6 / 100"

definition IVA_NORMAL :: real where
  "IVA_NORMAL = 23 / 100"

definition tier1Cap :: real where
  "tier1Cap = 100"

text \<open>The threshold \<^verbatim>\<open>6.9\<close> of the two tests \<^verbatim>\<open>powerKva <= 6.9\<close>.\<close>

definition lowPowerLimit :: real where
  "lowPowerLimit = 69 / 10"

text \<open>1. Power cost and VAT: power up to 6.9 kVA gets 6%, else 23%.\<close>

definition powerBaseCost :: "real \<Rightarrow> real \<Rightarrow> real" where
  "powerBaseCost days powerPrice = days * powerPrice"

definition powerVatRate :: "real \<Rightarrow> real" where
  "powerVatRate powerKva = (if powerKva \<le> lowPowerLimit then IVA_LOW else IVA_NORMAL)"

definition powerVat :: "real \<Rightarrow> real \<Rightarrow> real \<Rightarrow> real" where
  "powerVat powerKva days powerPrice = powerBaseCost days powerPrice * powerVatRate powerKva"

text \<open>2. Energy cost and VAT: the locals of the \<^verbatim>\<open>if (powerKva <= 6.9)\<close> branch.\<close>

definition energyBaseCost :: "real \<Rightarrow> real \<Rightarrow> real" where
  "energyBaseCost consumption energyPrice = consumption * energyPrice"

definition tier1Kwh :: "real \<Rightarrow> real" where
  "tier1Kwh consumption = min consumption tier1Cap"

definition tier2Kwh :: "real \<Rightarrow> real" where
  "tier2Kwh consumption = max 0 (consumption - tier1Cap)"

definition tier1Cost :: "real \<Rightarrow> real \<Rightarrow> real" where
  "tier1Cost consumption energyPrice = tier1Kwh consumption * energyPrice"

definition tier2Cost :: "real \<Rightarrow> real \<Rightarrow> real" where
  "tier2Cost consumption energyPrice = tier2Kwh consumption * energyPrice"

definition energyVat :: "real \<Rightarrow> real \<Rightarrow> real \<Rightarrow> real" where
  "energyVat consumption powerKva energyPrice =
     (if powerKva \<le> lowPowerLimit
      then (tier1Cost consumption energyPrice * IVA_LOW)
           + (tier2Cost consumption energyPrice * IVA_NORMAL)
      else energyBaseCost consumption energyPrice * IVA_NORMAL)"

text \<open>3. VAT on the taxes: CAV at 6%, DGEG and IEC at 23%, the social tariff at nothing.\<close>

definition cavVat :: "Taxes \<Rightarrow> real" where
  "cavVat t = cav t * IVA_LOW"

definition dgegVat :: "Taxes \<Rightarrow> real" where
  "dgegVat t = dgeg t * IVA_NORMAL"

definition iecVat :: "Taxes \<Rightarrow> real" where
  "iecVat t = iec t * IVA_NORMAL"

definition socialVat :: real where
  "socialVat = 0"

definition calculateWithVat ::
  "real \<Rightarrow> real \<Rightarrow> real \<Rightarrow> real \<Rightarrow> real \<Rightarrow> Taxes \<Rightarrow> CostBreakdown" where
  "calculateWithVat consumption powerKva days powerPrice energyPrice t =
     (let pBase = powerBaseCost days powerPrice;
          pVat = powerVat powerKva days powerPrice;
          eBase = energyBaseCost consumption energyPrice;
          eVat = energyVat consumption powerKva energyPrice;
          totalBase = pBase + eBase + cav t + dgeg t + iec t + social t;
          totalVat = pVat + eVat + cavVat t + dgegVat t + iecVat t + socialVat;
          totalWithVat = totalBase + totalVat
      in \<lparr> base = totalBase,
           vat = totalVat,
           total = totalWithVat,
           components =
             \<lparr> energy = \<lparr> base = eBase, vat = eVat, total = eBase + eVat \<rparr>,
               power' = \<lparr> base = pBase, vat = pVat, total = pBase + pVat \<rparr>,
               taxes =
                 \<lparr> base = cav t + dgeg t + iec t + social t,
                   vat = cavVat t + dgegVat t + iecVat t + socialVat,
                   total = (cav t + dgeg t + iec t + social t)
                         + (cavVat t + dgegVat t + iecVat t + socialVat) \<rparr> \<rparr> \<rparr>)"

text \<open>The input of the worked example of the specification.\<close>

definition exampleTaxes :: Taxes where
  "exampleTaxes = \<lparr> cav = 3 / 2, dgeg = 1 / 10, iec = 6, social = 0 \<rparr>"

definition exampleCost :: CostBreakdown where
  "exampleCost = calculateWithVat 200 (46 / 10) 30 (15 / 100) (18 / 100) exampleTaxes"

subsection \<open>calculateWithVat with every operation rounded\<close>

text \<open>
  A \<^verbatim>\<open>number\<close> is an IEEE-754 double, and every literal, product, sum and difference
  of the source is rounded to one. \<open>calculateWithVatRounded rnd\<close> is \<^verbatim>\<open>calculateWithVat\<close>
  once more, operation by operation and in the grouping of the source (sums associate to
  the left; the components add their own terms again), with \<open>rnd\<close> applied to each
  result. With \<open>rnd\<close> the identity it is the exact function above.
\<close>

definition calculateWithVatRounded ::
  "(real \<Rightarrow> real) \<Rightarrow> real \<Rightarrow> real \<Rightarrow> real \<Rightarrow> real \<Rightarrow> real \<Rightarrow> Taxes
     \<Rightarrow> CostBreakdown" where
  "calculateWithVatRounded rnd consumption powerKva days powerPrice energyPrice t =
     (let low = rnd IVA_LOW;
          normal = rnd IVA_NORMAL;
          pBase = rnd (days * powerPrice);
          pRate = (if powerKva \<le> rnd lowPowerLimit then low else normal);
          pVat = rnd (pBase * pRate);
          eBase = rnd (consumption * energyPrice);
          eVat =
            (if powerKva \<le> rnd lowPowerLimit then
               (let t1Kwh = min consumption (rnd tier1Cap);
                    t2Kwh = max 0 (rnd (consumption - rnd tier1Cap));
                    t1Cost = rnd (t1Kwh * energyPrice);
                    t2Cost = rnd (t2Kwh * energyPrice)
                in rnd (rnd (t1Cost * low) + rnd (t2Cost * normal)))
             else rnd (eBase * normal));
          cVat = rnd (cav t * low);
          dVat = rnd (dgeg t * normal);
          iVat = rnd (iec t * normal);
          sVat = 0;
          totalBase =
            rnd (rnd (rnd (rnd (rnd (pBase + eBase) + cav t) + dgeg t) + iec t) + social t);
          totalVat = rnd (rnd (rnd (rnd (rnd (pVat + eVat) + cVat) + dVat) + iVat) + sVat);
          totalWithVat = rnd (totalBase + totalVat);
          tBase = rnd (rnd (rnd (cav t + dgeg t) + iec t) + social t);
          tVat = rnd (rnd (rnd (cVat + dVat) + iVat) + sVat)
      in \<lparr> base = totalBase,
           vat = totalVat,
           total = totalWithVat,
           components =
             \<lparr> energy = \<lparr> base = eBase, vat = eVat, total = rnd (eBase + eVat) \<rparr>,
               power' = \<lparr> base = pBase, vat = pVat, total = rnd (pBase + pVat) \<rparr>,
               taxes = \<lparr> base = tBase, vat = tVat, total = rnd (tBase + tVat) \<rparr> \<rparr> \<rparr>)"

text \<open>
  Rounding to the nearest double, ties to the even significand: a double in the normal
  range is an integer of at most 53 bits times a power of two. \<open>exponentFrom\<close> looks for
  the \<open>e\<close> with \<open>2 powi e \<le> x < 2 powi (e + 1)\<close>, starting at 0 with enough steps for
  every exponent a double has. Overflow to an infinity and the subnormal numbers are left
  out: the examples stay far from both.
\<close>

definition roundTiesToEven :: "real \<Rightarrow> int" where
  "roundTiesToEven y =
     (let f = \<lfloor>y\<rfloor>; r = y - of_int f
      in if r < 1 / 2 then f else if 1 / 2 < r then f + 1 else if even f then f else f + 1)"

fun exponentFrom :: "nat \<Rightarrow> int \<Rightarrow> real \<Rightarrow> int" where
  "exponentFrom 0 e x = e"
| "exponentFrom (Suc n) e x =
     (if x < 2 powi e then exponentFrom n (e - 1) x
      else if 2 powi (e + 1) \<le> x then exponentFrom n (e + 1) x
      else e)"

definition binary64 :: "real \<Rightarrow> real" where
  "binary64 x =
     (if x = 0 then 0
      else let e = exponentFrom 1100 0 \<bar>x\<bar>; q = 2 powi (e - 52)
           in of_int (roundTiesToEven (x / q)) * q)"

text \<open>
  The worked example of the specification as the program sees it: each decimal of the
  input is the double next to it.
\<close>

definition exampleCostDouble :: CostBreakdown where
  "exampleCostDouble =
     calculateWithVatRounded binary64 200 (binary64 (46 / 10)) 30 (binary64 (15 / 100))
       (binary64 (18 / 100))
       \<lparr> cav = 3 / 2, dgeg = binary64 (1 / 10), iec = 6, social = 0 \<rparr>"

subsection \<open>Numbers that may leave the finite range\<close>

text \<open>
  \<^verbatim>\<open>365 / billData.billingPeriodDays\<close> divides by a field that nothing keeps away
  from zero. JavaScript does not raise there: a finite number divided by zero is an
  infinity, or NaN for \<^verbatim>\<open>0 / 0\<close>, and a finite number times an infinity is an infinity,
  or NaN for \<^verbatim>\<open>0 * Infinity\<close>. (With a negative zero as divisor the sign of the infinity
  is the opposite one; the model has one zero.)
\<close>

datatype number = Finite real | PosInfinity | NegInfinity | NaN

fun isFinite :: "number \<Rightarrow> bool" where
  "isFinite (Finite x) = True"
| "isFinite PosInfinity = False"
| "isFinite NegInfinity = False"
| "isFinite NaN = False"

text \<open>\<^verbatim>\<open>x / y\<close> on finite operands.\<close>

definition divide_number :: "real \<Rightarrow> real \<Rightarrow> number" where
  "divide_number x y =
     (if y \<noteq> 0 then Finite (x / y)
      else if 0 < x then PosInfinity
      else if x < 0 then NegInfinity
      else NaN)"

text \<open>\<^verbatim>\<open>x * n\<close> for a finite \<open>x\<close>.\<close>

fun times_number :: "real \<Rightarrow> number \<Rightarrow> number" where
  "times_number x (Finite y) = Finite (x * y)"
| "times_number x PosInfinity =
     (if 0 < x then PosInfinity else if x < 0 then NegInfinity else NaN)"
| "times_number x NegInfinity =
     (if 0 < x then NegInfinity else if x < 0 then PosInfinity else NaN)"
| "times_number x NaN = NaN"

subsection \<open>currentCalculated and comparison\<close>

text \<open>\<^verbatim>\<open>x || 0\<close> on an optional price.\<close>

fun orZero :: "real option \<Rightarrow> real" where
  "orZero None = 0"
| "orZero (Some x) = x"

text \<open>
  The object literal \<^verbatim>\<open>{cav: billData.audiovisualTax, dgeg: billData.dgegTax, iec:
  billData.ieceTax, social: billData.socialTariff}\<close>, built at each of the three calls.
\<close>

definition billTaxes :: "BillData \<Rightarrow> Taxes" where
  "billTaxes b =
     \<lparr> cav = audiovisualTax b, dgeg = dgegTax b, iec = ieceTax b, social = socialTariff b \<rparr>"

definition currentCalculated :: "BillData \<Rightarrow> CostBreakdown" where
  "currentCalculated b =
     calculateWithVat (monthlyConsumptionKwh b) (contractedPowerKva b) (billingPeriodDays b)
       (orZero (currentPowerPricePerDay b)) (orZero (currentEnergyPricePerKwh b))
       (billTaxes b)"

text \<open>
  \<^verbatim>\<open>ComparisonResult\<close>; the field \<^verbatim>\<open>details.taxes\<close> is written \<open>taxesCost\<close>.
\<close>

record CurrentNew =
  current :: real
  new :: real

record Details =
  energyCost :: CurrentNew
  powerCost :: CurrentNew
  taxesCost :: CurrentNew

record ComparisonResult =
  currentTotal :: real
  newTotal :: real
  currentBase :: real
  newBase :: real
  difference :: real
  isCheaper :: bool
  yearlySavings :: number
  details :: Details

text \<open>The \<^verbatim>\<open>comparison\<close> memo: \<open>None\<close> is \<^verbatim>\<open>null\<close>.\<close>

definition comparison :: "BillData \<Rightarrow> NewOfferData \<Rightarrow> ComparisonResult option" where
  "comparison b offer =
     (if monthlyConsumptionKwh b = 0 then None
      else
        let cur = currentCalculated b;
            newOfferCalc =
              calculateWithVat (monthlyConsumptionKwh b) (contractedPowerKva b)
                (billingPeriodDays b) (powerPricePerDay offer) (energyPricePerKwh offer)
                (billTaxes b);
            diff = total cur - total newOfferCalc
        in Some
          \<lparr> currentTotal = total cur,
            newTotal = total newOfferCalc,
            currentBase = base cur,
            newBase = base newOfferCalc,
            difference = diff,
            isCheaper = (total newOfferCalc < total cur),
            yearlySavings = times_number diff (divide_number 365 (billingPeriodDays b)),
            details =
              \<lparr> energyCost =
                  \<lparr> current = total (energy (components cur)),
                    new = total (energy (components newOfferCalc)) \<rparr>,
                powerCost =
                  \<lparr> current = total (power' (components cur)),
                    new = total (power' (components newOfferCalc)) \<rparr>,
                taxesCost =
                  \<lparr> current = total (taxes (components cur)),
                    new = total (taxes (components newOfferCalc)) \<rparr> \<rparr> \<rparr>)"

subsection \<open>multiComparisonResults\<close>

text \<open>
  \<^verbatim>\<open>SavedSimulation\<close>, and the objects the ranking returns: the simulation spread
  (\<^verbatim>\<open>...sim\<close>) with four more fields.
\<close>

record SavedSimulation =
  version :: string
  timestamp :: string
  billData :: BillData
  newOffer :: NewOfferData

record RankedSimulation = SavedSimulation +
  originalIndex :: nat
  calculatedTotal :: real
  yearlySavings :: number
  isCheaper :: bool

text \<open>The callback of \<^verbatim>\<open>multiSimulations.map((sim, index) => ...)\<close>.\<close>

definition rankOne :: "BillData \<Rightarrow> nat \<times> SavedSimulation \<Rightarrow> RankedSimulation" where
  "rankOne b p =
     (let index = fst p; sim = snd p;
          calc =
            calculateWithVat (monthlyConsumptionKwh b) (contractedPowerKva b)
              (billingPeriodDays b) (powerPricePerDay (newOffer sim))
              (energyPricePerKwh (newOffer sim)) (billTaxes b);
          diff = total (currentCalculated b) - total calc
      in \<lparr> version = version sim, timestamp = timestamp sim, billData = billData sim,
           newOffer = newOffer sim,
           originalIndex = index,
           calculatedTotal = total calc,
           yearlySavings = times_number diff (divide_number 365 (billingPeriodDays b)),
           isCheaper = (total calc < total (currentCalculated b)) \<rparr>)"

text \<open>
  \<^verbatim>\<open>results.sort((a, b) => a.calculatedTotal - b.calculatedTotal)\<close>: the sort of the
  language is stable and the comparator orders by \<^verbatim>\<open>calculatedTotal\<close>; it is
  \<^const>\<open>sort_key\<close> here, the stable insertion sort of the library.
\<close>

definition multiComparisonResults ::
  "BillData \<Rightarrow> SavedSimulation list \<Rightarrow> RankedSimulation list" where
  "multiComparisonResults b sims =
     (if monthlyConsumptionKwh b = 0 \<or> length sims = 0 then []
      else sort_key calculatedTotal (map (rankOne b) (enumerate 0 sims)))"


text \<open>A bill and three offers for the examples; the first and the last offer cost the same.\<close>

definition exampleBill :: BillData where
  "exampleBill =
     \<lparr> monthlyConsumptionKwh = 200, contractedPowerKva = 46 / 10, audiovisualTax = 3 / 2,
       dgegTax = 1 / 10, ieceTax = 6, socialTariff = 0, totalAmount = 60,
       billingPeriodDays = 30, currentPowerPricePerDay = Some (15 / 100),
       currentEnergyPricePerKwh = Some (18 / 100) \<rparr>"

definition offer :: "string \<Rightarrow> real \<Rightarrow> real \<Rightarrow> NewOfferData" where
  "offer n pp ep = \<lparr> supplierName = Some n, powerPricePerDay = pp, energyPricePerKwh = ep \<rparr>"

definition saved :: "NewOfferData \<Rightarrow> SavedSimulation" where
  "saved x = \<lparr> version = ''1.0'', timestamp = ''2024-01-01T00:00:00.000Z'',
               billData = exampleBill\<lparr>monthlyConsumptionKwh := 999\<rparr>, newOffer = x \<rparr>"

definition exampleSims :: "SavedSimulation list" where
  "exampleSims =
     [saved (offer ''A'' (20 / 100) (20 / 100)),
      saved (offer ''B'' (10 / 100) (15 / 100)),
      saved (offer ''C'' (20 / 100) (20 / 100))]"

definition zeroDaysBill :: BillData where
  "zeroDaysBill = exampleBill\<lparr>billingPeriodDays := 0\<rparr>"

subsection \<open>handleAddMultiSimulations\<close>

text \<open>
  The batch loader reads each chosen file as text and calls \<^verbatim>\<open>JSON.parse\<close> on it.
  A parsed document is a JSON value; the cast \<^verbatim>\<open>as SavedSimulation\<close> checks nothing,
  so the loader is modelled on JSON values. In an object the list holds each own
  property once, in insertion order.
\<close>

datatype json =
  JNull | JBool bool | JNumber real | JString string
  | JArray "json list" | JObject "(string \<times> json) list"

text \<open>What the \<^verbatim>\<open>try\<close> block can throw, and the \<^verbatim>\<open>catch\<close> swallows.\<close>

datatype jsError = SyntaxError | TypeError

text \<open>
  \<^verbatim>\<open>json.k\<close>: reading a property of \<^verbatim>\<open>null\<close> throws; a primitive or an array has no
  property of these names; \<open>None\<close> is \<^verbatim>\<open>undefined\<close>.
\<close>

fun getProp :: "json \<Rightarrow> string \<Rightarrow> jsError + json option" where
  "getProp JNull k = Inl TypeError"
| "getProp (JObject kvs) k = Inr (map_of kvs k)"
| "getProp j k = Inr None"

text \<open>The truth value of \<^verbatim>\<open>if (v)\<close>.\<close>

fun truthy :: "json option \<Rightarrow> bool" where
  "truthy None = False"
| "truthy (Some JNull) = False"
| "truthy (Some (JBool b)) = b"
| "truthy (Some (JNumber x)) = (x \<noteq> 0)"
| "truthy (Some (JString s)) = (s \<noteq> [])"
| "truthy (Some (JArray xs)) = True"
| "truthy (Some (JObject kvs)) = True"

text \<open>\<^verbatim>\<open>json.k = v\<close>: an existing property keeps its place, a new one goes last.\<close>

fun setField :: "string \<Rightarrow> json \<Rightarrow> (string \<times> json) list \<Rightarrow> (string \<times> json) list" where
  "setField k v [] = [(k, v)]"
| "setField k v (p # ps) = (if fst p = k then (k, v) # ps else p # setField k v ps)"

fun setProp :: "json \<Rightarrow> string \<Rightarrow> json \<Rightarrow> json" where
  "setProp (JObject kvs) k v = JObject (setField k v kvs)"
| "setProp j k v = j"

text \<open>The React state the handlers of \<^verbatim>\<open>App\<close> read and write.\<close>

datatype AnalysisStatus = IDLE | ANALYZING | SUCCESS | ERROR

record AppState =
  status :: AnalysisStatus
  errorMsg :: "string option"
  billData :: BillData
  newOffer :: NewOfferData
  multiSimulations :: "json list"

text \<open>
  One \<^verbatim>\<open>onload\<close> event: the text that was read, and what \<^verbatim>\<open>new
  Date().toISOString()\<close> gives at that moment. The events of one batch arrive in the
  order in which the reads complete. Only \<^verbatim>\<open>reader.onload\<close> is set: a read that
  fails fires no event, so a batch can have fewer events than files.
\<close>

record LoadEvent =
  content :: string
  clock :: string

text \<open>\<^verbatim>\<open>if (!json.timestamp) json.timestamp = new Date().toISOString()\<close>\<close>

definition fillTimestamp :: "string \<Rightarrow> json \<Rightarrow> json" where
  "fillTimestamp now j =
     (case getProp j ''timestamp'' of
        Inr v \<Rightarrow> if \<not> truthy v then setProp j ''timestamp'' (JString now) else j
      | Inl e \<Rightarrow> j)"

text \<open>
  The \<^verbatim>\<open>try\<close> block of the callback, on the array \<^verbatim>\<open>newSims\<close>. \<^verbatim>\<open>JSON.parse\<close> is
  the parameter \<open>parse\<close>, \<open>None\<close> where it throws.
\<close>

definition tryBlock ::
  "(string \<Rightarrow> json option) \<Rightarrow> LoadEvent \<Rightarrow> json list \<Rightarrow> jsError + json list" where
  "tryBlock parse ev newSims =
     (if content ev \<noteq> [] then
        (case parse (content ev) of
           None \<Rightarrow> Inl SyntaxError
         | Some j \<Rightarrow>
            (case getProp j ''newOffer'' of
               Inl e \<Rightarrow> Inl e
             | Inr v \<Rightarrow>
                 if truthy v then Inr (newSims @ [fillTimestamp (clock ev) j])
                 else Inr newSims))
      else Inr newSims)"

text \<open>
  The whole callback: \<^verbatim>\<open>try\<close>, \<^verbatim>\<open>catch\<close> (which only writes to the console) and
  \<^verbatim>\<open>finally\<close>, on the locals \<^verbatim>\<open>(newSims, processedCount)\<close> and the state.
\<close>

definition onload ::
  "(string \<Rightarrow> json option) \<Rightarrow> nat \<Rightarrow> LoadEvent
     \<Rightarrow> (json list \<times> nat) \<times> AppState \<Rightarrow> (json list \<times> nat) \<times> AppState" where
  "onload parse nFiles ev s =
     (let newSims = fst (fst s); processedCount = snd (fst s); st = snd s;
          newSims' = (case tryBlock parse ev newSims of Inl e \<Rightarrow> newSims | Inr ns \<Rightarrow> ns);
          processedCount' = processedCount + 1
      in if processedCount' = nFiles
         then ((newSims', processedCount'),
               st\<lparr>multiSimulations := multiSimulations st @ newSims'\<rparr>)
         else ((newSims', processedCount'), st))"

text \<open>
  The handler, for \<^verbatim>\<open>files.length = nFiles\<close> chosen files and the \<^verbatim>\<open>onload\<close>
  events \<open>evs\<close> that follow, each file giving at most one. The callbacks compare
  \<^verbatim>\<open>processedCount\<close> with \<^verbatim>\<open>files.length\<close>, not with the number of events.
\<close>

definition handleAddMultiSimulations ::
  "(string \<Rightarrow> json option) \<Rightarrow> nat \<Rightarrow> LoadEvent list \<Rightarrow> AppState \<Rightarrow> AppState" where
  "handleAddMultiSimulations parse nFiles evs st =
     (if nFiles > 0 then snd (fold (onload parse nFiles) evs (([], 0), st))
      else st)"

text \<open>
  Two descriptions of a file to compare the loader with. \<open>accepted\<close>: the text is not
  empty, it parses, the value is not \<^verbatim>\<open>null\<close> and its \<^verbatim>\<open>newOffer\<close> is truthy.
  \<open>hasField\<close>: the value is an object with a property of that name, whatever its value.
  \<open>stored\<close> is the document as it is kept.
\<close>

definition accepted :: "(string \<Rightarrow> json option) \<Rightarrow> LoadEvent \<Rightarrow> bool" where
  "accepted parse ev =
     (content ev \<noteq> [] \<and>
     (case parse (content ev) of
        None \<Rightarrow> False
      | Some j \<Rightarrow> (case getProp j ''newOffer'' of Inl e \<Rightarrow> False | Inr v \<Rightarrow> truthy v)))"

definition hasField :: "json \<Rightarrow> string \<Rightarrow> bool" where
  "hasField j k = (case j of JObject kvs \<Rightarrow> k \<in> fst ` set kvs | _ \<Rightarrow> False)"

definition stored :: "(string \<Rightarrow> json option) \<Rightarrow> LoadEvent \<Rightarrow> json" where
  "stored parse ev =
     (case parse (content ev) of Some j \<Rightarrow> fillTimestamp (clock ev) j | None \<Rightarrow> JNull)"

text \<open>
  Example files: a document with nothing but an offer, one whose offer is \<^verbatim>\<open>null\<close>,
  the document \<^verbatim>\<open>null\<close>, and a text cut off in the middle. \<open>exampleParse\<close> is
  \<^verbatim>\<open>JSON.parse\<close> on these four texts.
\<close>

definition offerOnlyText :: string where
  \<open>offerOnlyText = ''{"newOffer":{"supplierName":"A","powerPricePerDay":0.2}}''\<close>

definition offerOnlyDoc :: json where
  "offerOnlyDoc =
     JObject [(''newOffer'',
       JObject [(''supplierName'', JString ''A''), (''powerPricePerDay'', JNumber (2 / 10))])]"

definition nullOfferText :: string where
  \<open>nullOfferText = ''{"newOffer":null}''\<close>

definition nullOfferDoc :: json where
  "nullOfferDoc = JObject [(''newOffer'', JNull)]"

definition brokenText :: string where
  \<open>brokenText = ''{"newOffer":''\<close>

definition exampleParse :: "string \<Rightarrow> json option" where
  "exampleParse =
     map_of [(offerOnlyText, offerOnlyDoc), (nullOfferText, nullOfferDoc), (''null'', JNull)]"

definition exampleClock :: string where
  "exampleClock = ''2024-05-01T10:00:00.000Z''"

definition loadEvent :: "string \<Rightarrow> LoadEvent" where
  "loadEvent t = \<lparr> content = t, clock = exampleClock \<rparr>"

definition exampleState :: AppState where
  "exampleState =
     \<lparr> status = SUCCESS, errorMsg = None, billData = exampleBill,
       newOffer = offer ''B'' (10 / 100) (15 / 100), multiSimulations = [] \<rparr>"

section \<open>Properties\<close>

subsection \<open>Unfolding the calculator\<close>

lemmas calc_defs = calculateWithVat_def powerBaseCost_def powerVatRate_def powerVat_def
  energyBaseCost_def tier1Kwh_def tier2Kwh_def tier1Cost_def tier2Cost_def energyVat_def
  cavVat_def dgegVat_def iecVat_def socialVat_def Let_def IVA_LOW_def
  IVA_NORMAL_def tier1Cap_def lowPowerLimit_def

lemmas example_defs = exampleCost_def exampleTaxes_def calc_defs

lemmas bill_defs = exampleBill_def zeroDaysBill_def offer_def saved_def exampleSims_def
  billTaxes_def currentCalculated_def

lemma energy_vat_field:
  "vat (energy (components (calculateWithVat c p d pp ep t))) = energyVat c p ep"
  by (simp add: calculateWithVat_def Let_def)

lemma energy_base_field:
  "base (energy (components (calculateWithVat c p d pp ep t))) = energyBaseCost c ep"
  by (simp add: calculateWithVat_def Let_def)

subsection \<open>The VAT rules of calculateWithVat\<close>

text \<open>
  C1. With a contracted power of at most 6.9 kVA the energy VAT is the low rate on
  tier 1 = min(consumption, 100 kWh) plus the standard rate on tier 2 = the rest of the
  consumption, both tiers at the one unit energy price; with more than 6.9 kVA it is the
  standard rate on the whole energy base, consumption times energy price.
\<close>

theorem C1_energy_vat_tiers:
  "(p \<le> lowPowerLimit \<longrightarrow>
      vat (energy (components (calculateWithVat c p d pp ep t)))
        = (min c 100 * ep) * IVA_LOW + ((c - min c 100) * ep) * IVA_NORMAL)
   \<and> (p > lowPowerLimit \<longrightarrow>
      vat (energy (components (calculateWithVat c p d pp ep t)))
        = (c * ep) * IVA_NORMAL)"
  by (auto simp: energy_vat_field energyVat_def tier1Cost_def tier2Cost_def tier1Kwh_def
      tier2Kwh_def tier1Cap_def energyBaseCost_def min_def max_def)

theorem C1_energy_vat_tiers_witness:
  "(46 / 10 :: real) \<le> lowPowerLimit
   \<and> vat (energy (components (calculateWithVat 200 (46 / 10) 30 (15 / 100) (18 / 100) exampleTaxes)))
       = (min 200 100 * (18 / 100)) * IVA_LOW + ((200 - min 200 100) * (18 / 100)) * IVA_NORMAL
   \<and> (103 / 10 :: real) > lowPowerLimit
   \<and> vat (energy (components (calculateWithVat 50 (103 / 10) 30 (15 / 100) (18 / 100) exampleTaxes)))
       = (50 * (18 / 100)) * IVA_NORMAL"
  using C1_energy_vat_tiers [of "46 / 10" 200 30 "15 / 100" "18 / 100" exampleTaxes]
        C1_energy_vat_tiers [of "103 / 10" 50 30 "15 / 100" "18 / 100" exampleTaxes]
  by (simp add: lowPowerLimit_def)

text \<open>
  C2. For billing days above zero and non-negative power and energy price, the breakdown
  has total = base + vat, and so has each of its three components.
\<close>

theorem C2_total_is_base_plus_vat:
  assumes "0 < d" and "0 \<le> p" and "0 \<le> ep"
  shows "total (calculateWithVat c p d pp ep t)
           = base (calculateWithVat c p d pp ep t) + vat (calculateWithVat c p d pp ep t)
       \<and> total (energy (components (calculateWithVat c p d pp ep t)))
           = base (energy (components (calculateWithVat c p d pp ep t)))
             + vat (energy (components (calculateWithVat c p d pp ep t)))
       \<and> total (power' (components (calculateWithVat c p d pp ep t)))
           = base (power' (components (calculateWithVat c p d pp ep t)))
             + vat (power' (components (calculateWithVat c p d pp ep t)))
       \<and> total (taxes (components (calculateWithVat c p d pp ep t)))
           = base (taxes (components (calculateWithVat c p d pp ep t)))
             + vat (taxes (components (calculateWithVat c p d pp ep t)))"
  by (simp add: calculateWithVat_def Let_def)

theorem C2_total_is_base_plus_vat_witness:
  "(0::real) < 30 \<and> (0::real) \<le> 46 / 10 \<and> (0::real) \<le> 18 / 100
   \<and> total exampleCost = base exampleCost + vat exampleCost
   \<and> total (energy (components exampleCost))
       = base (energy (components exampleCost)) + vat (energy (components exampleCost))
   \<and> total (power' (components exampleCost))
       = base (power' (components exampleCost)) + vat (power' (components exampleCost))
   \<and> total (taxes (components exampleCost))
       = base (taxes (components exampleCost)) + vat (taxes (components exampleCost))"
  using C2_total_is_base_plus_vat [of 30 "46 / 10" "18 / 100" 200 "15 / 100" exampleTaxes]
  by (simp add: exampleCost_def)

text \<open>
  C3, as the specification gives it, has a tier-1 VAT of 0.54, an energy VAT of 4.68, a tax
  total near 6.443 and a grand total near 54.543. The first tier is 100 kWh at 0.18, which
  is 18.00 and carries 1.08 at 6%; the three sums that follow are off by the same 0.54,
  more than any rounding.
\<close>

theorem C3_example_counterexample:
  "\<not> (base (power' (components exampleCost)) = 450 / 100
   \<and> base (energy (components exampleCost)) = 36
   \<and> tier1Cost 200 (18 / 100) * IVA_LOW = 54 / 100
   \<and> tier2Cost 200 (18 / 100) * IVA_NORMAL = 414 / 100
   \<and> vat (energy (components exampleCost)) = 468 / 100
   \<and> vat (power' (components exampleCost)) = 27 / 100
   \<and> cavVat exampleTaxes = 9 / 100
   \<and> dgegVat exampleTaxes = 23 / 1000
   \<and> iecVat exampleTaxes = 138 / 100
   \<and> base exampleCost = 4810 / 100
   \<and> \<bar>vat exampleCost - 6443 / 1000\<bar> \<le> 1 / 2
   \<and> \<bar>total exampleCost - 54543 / 1000\<bar> \<le> 1 / 2)"
  by (simp add: example_defs)

text \<open>
  C3, amended. On consumption 200 kWh, power 4.6 kVA, 30 days, power price 0.15, energy
  price 0.18 and taxes cav 1.5, dgeg 0.10, iec 6.0, social 0: power base 4.50, energy base
  36.00, tier-1 VAT 1.08, tier-2 VAT 4.14, energy VAT 5.22, power VAT 0.27, CAV VAT 0.09,
  DGEG VAT 0.023, IEC VAT 1.38, base total 48.10, tax total 6.983, grand total 55.083.
\<close>

theorem C3_example_values:
  "base (power' (components exampleCost)) = 450 / 100
   \<and> base (energy (components exampleCost)) = 36
   \<and> tier1Cost 200 (18 / 100) * IVA_LOW = 108 / 100
   \<and> tier2Cost 200 (18 / 100) * IVA_NORMAL = 414 / 100
   \<and> vat (energy (components exampleCost)) = 522 / 100
   \<and> vat (power' (components exampleCost)) = 27 / 100
   \<and> cavVat exampleTaxes = 9 / 100
   \<and> dgegVat exampleTaxes = 23 / 1000
   \<and> iecVat exampleTaxes = 138 / 100
   \<and> base exampleCost = 4810 / 100
   \<and> vat exampleCost = 6983 / 1000
   \<and> total exampleCost = 55083 / 1000"
  by (simp add: example_defs)

text \<open>
  C7. Whatever the other inputs, a social tariff of -5 gives a base total exactly 5 below
  that of a social tariff of 0, and the same VAT total.
\<close>

theorem C7_social_tariff:
  "base (calculateWithVat c p d pp ep (t\<lparr>social := - 5\<rparr>))
     = base (calculateWithVat c p d pp ep (t\<lparr>social := 0\<rparr>)) - 5
   \<and> vat (calculateWithVat c p d pp ep (t\<lparr>social := - 5\<rparr>))
     = vat (calculateWithVat c p d pp ep (t\<lparr>social := 0\<rparr>))"
  by (simp add: calculateWithVat_def Let_def cavVat_def dgegVat_def iecVat_def)

text \<open>
  C8, as the specification gives it, asks for an energy VAT strictly between the low rate
  and the standard rate on the energy base whenever the power is at most 6.9 kVA and the
  consumption above 100 kWh. With an energy price of zero, which the offer form starts
  with, the energy base and all three amounts are zero.
\<close>

theorem C8_blend_counterexample:
  "(46 / 10 :: real) \<le> lowPowerLimit \<and> (200 :: real) > 100
   \<and> \<not> (IVA_LOW * base (energy (components (calculateWithVat 200 (46 / 10) 30 (15 / 100) 0 exampleTaxes)))
          < vat (energy (components (calculateWithVat 200 (46 / 10) 30 (15 / 100) 0 exampleTaxes)))
        \<and> vat (energy (components (calculateWithVat 200 (46 / 10) 30 (15 / 100) 0 exampleTaxes)))
          < IVA_NORMAL * base (energy (components (calculateWithVat 200 (46 / 10) 30 (15 / 100) 0 exampleTaxes))))"
  by (simp add: example_defs)

text \<open>
  C8, amended. With a power of at most 6.9 kVA and a consumption of at most 100 kWh the
  energy VAT is the energy base times the low rate; with a power of at most 6.9 kVA, a
  consumption above 100 kWh and an energy price above zero, the energy VAT lies strictly
  between the low rate and the standard rate on the energy base.
\<close>

theorem C8_low_rate_and_blend:
  "(p \<le> lowPowerLimit \<and> c \<le> 100 \<longrightarrow>
      vat (energy (components (calculateWithVat c p d pp ep t)))
        = base (energy (components (calculateWithVat c p d pp ep t))) * IVA_LOW)
   \<and> (p \<le> lowPowerLimit \<and> c > 100 \<and> ep > 0 \<longrightarrow>
      IVA_LOW * base (energy (components (calculateWithVat c p d pp ep t)))
        < vat (energy (components (calculateWithVat c p d pp ep t)))
      \<and> vat (energy (components (calculateWithVat c p d pp ep t)))
        < IVA_NORMAL * base (energy (components (calculateWithVat c p d pp ep t))))"
proof (intro conjI impI)
  assume h: "p \<le> lowPowerLimit \<and> c \<le> 100"
  then show "vat (energy (components (calculateWithVat c p d pp ep t)))
        = base (energy (components (calculateWithVat c p d pp ep t))) * IVA_LOW"
    by (simp add: energy_vat_field energy_base_field energyVat_def tier1Cost_def tier2Cost_def
        tier1Kwh_def tier2Kwh_def tier1Cap_def energyBaseCost_def)
next
  assume h: "p \<le> lowPowerLimit \<and> c > 100 \<and> ep > 0"
  then have v: "vat (energy (components (calculateWithVat c p d pp ep t)))
      = 6 * ep + (c - 100) * ep * (23 / 100)"
    by (simp add: energy_vat_field energyVat_def tier1Cost_def tier2Cost_def
        tier1Kwh_def tier2Kwh_def tier1Cap_def IVA_LOW_def IVA_NORMAL_def)
  have b: "base (energy (components (calculateWithVat c p d pp ep t))) = c * ep"
    by (simp add: energy_base_field energyBaseCost_def)
  from h have pos: "0 < (c - 100) * ep * (17 / 100)" by simp
  have lo: "vat (energy (components (calculateWithVat c p d pp ep t)))
      - IVA_LOW * base (energy (components (calculateWithVat c p d pp ep t)))
      = (c - 100) * ep * (17 / 100)"
    by (simp add: v b IVA_LOW_def field_simps)
  show "IVA_LOW * base (energy (components (calculateWithVat c p d pp ep t)))
        < vat (energy (components (calculateWithVat c p d pp ep t)))"
    using pos lo by linarith
  from h have pos2: "0 < 17 * ep" by simp
  have hi: "IVA_NORMAL * base (energy (components (calculateWithVat c p d pp ep t)))
      - vat (energy (components (calculateWithVat c p d pp ep t))) = 17 * ep"
    by (simp add: v b IVA_NORMAL_def field_simps)
  show "vat (energy (components (calculateWithVat c p d pp ep t)))
        < IVA_NORMAL * base (energy (components (calculateWithVat c p d pp ep t)))"
    using pos2 hi by linarith
qed

theorem C8_low_rate_and_blend_witness:
  "((46 / 10 :: real) \<le> lowPowerLimit \<and> (80 :: real) \<le> 100)
   \<and> vat (energy (components (calculateWithVat 80 (46 / 10) 30 (15 / 100) (18 / 100) exampleTaxes)))
       = base (energy (components (calculateWithVat 80 (46 / 10) 30 (15 / 100) (18 / 100) exampleTaxes))) * IVA_LOW
   \<and> ((46 / 10 :: real) \<le> lowPowerLimit \<and> (200 :: real) > 100 \<and> (18 / 100 :: real) > 0)
   \<and> IVA_LOW * base (energy (components exampleCost)) < vat (energy (components exampleCost))
   \<and> vat (energy (components exampleCost)) < IVA_NORMAL * base (energy (components exampleCost))"
  using C8_low_rate_and_blend [of "46 / 10" 80 30 "15 / 100" "18 / 100" exampleTaxes]
        C8_low_rate_and_blend [of "46 / 10" 200 30 "15 / 100" "18 / 100" exampleTaxes]
  by (simp add: lowPowerLimit_def exampleCost_def)

subsection \<open>The components and the top-level sums\<close>

lemma rounded_exact:
  "calculateWithVatRounded (\<lambda>x. x) c p d pp ep t = calculateWithVat c p d pp ep t"
  by (simp add: calculateWithVatRounded_def calculateWithVat_def powerBaseCost_def
      powerVatRate_def powerVat_def energyBaseCost_def tier1Kwh_def tier2Kwh_def tier1Cost_def
      tier2Cost_def energyVat_def cavVat_def dgegVat_def iecVat_def socialVat_def Let_def)

lemma exponentFrom_numeral:
  "exponentFrom (numeral k) e x =
     (if x < 2 powi e then exponentFrom (pred_numeral k) (e - 1) x
      else if 2 powi (e + 1) \<le> x then exponentFrom (pred_numeral k) (e + 1) x
      else e)"
  by (simp add: numeral_eq_Suc)

lemmas binary64_eval = binary64_def roundTiesToEven_def Let_def exponentFrom_numeral
  power_int_minus

lemmas select_fields = Amounts.select_convs Components.select_convs CostBreakdown.select_convs
  Taxes.select_convs

lemmas rounded_consts = IVA_LOW_def IVA_NORMAL_def lowPowerLimit_def tier1Cap_def

lemma exampleCostDouble_vat:
  "vat exampleCostDouble = 7862159049482043 / 2 ^ 50"
  unfolding exampleCostDouble_def calculateWithVatRounded_def Let_def
  apply (simp only: select_fields)
  apply (simp add: binary64_eval rounded_consts)
  done

lemma exampleCostDouble_energy_vat:
  "vat (energy (components exampleCostDouble)) = 2938598756859249 / 2 ^ 49"
  unfolding exampleCostDouble_def calculateWithVatRounded_def Let_def
  apply (simp only: select_fields)
  apply (simp add: binary64_eval rounded_consts)
  done

lemma exampleCostDouble_power_vat:
  "vat (power' (components exampleCostDouble)) = 607985949695017 / 2 ^ 51"
  unfolding exampleCostDouble_def calculateWithVatRounded_def Let_def
  apply (simp only: select_fields)
  apply (simp add: binary64_eval rounded_consts)
  done

lemma exampleCostDouble_taxes_vat:
  "vat (taxes (components exampleCostDouble)) = 6723874243664151 / 2 ^ 52"
  unfolding exampleCostDouble_def calculateWithVatRounded_def Let_def
  apply (simp only: select_fields)
  apply (simp add: binary64_eval rounded_consts)
  done

text \<open>
  C9, as the specification gives it, has the top-level total, base and VAT equal to the
  sums of the three components' totals, bases and VATs for every input. The source adds
  the same terms in another grouping at top level (power, energy, then the taxes one by
  one) than in the components (the taxes among themselves), and each addition rounds. On
  the worked example of the specification, in doubles, the top-level VAT is
  7862159049482043 / 2^50, printed 6.983, and the three component VATs add up to the next
  double, 7862159049482044 / 2^50, printed 6.9830000000000005; their exact sum is not the
  top-level VAT either.
\<close>

theorem C9_double_rounding_counterexample:
  "vat exampleCostDouble = 7862159049482043 / 2 ^ 50
   \<and> binary64 (binary64 (vat (energy (components exampleCostDouble))
                  + vat (power' (components exampleCostDouble)))
                + vat (taxes (components exampleCostDouble)))
       = 7862159049482044 / 2 ^ 50
   \<and> vat exampleCostDouble
       \<noteq> vat (energy (components exampleCostDouble))
         + vat (power' (components exampleCostDouble))
         + vat (taxes (components exampleCostDouble))"
  by (simp add: exampleCostDouble_vat exampleCostDouble_energy_vat exampleCostDouble_power_vat
      exampleCostDouble_taxes_vat binary64_eval)

text \<open>
  C9, amended. For every input, the top-level base and VAT add up the same terms as the
  bases and VATs of the energy, power and taxes components, in another grouping (at top
  level power, energy and then the taxes one by one; in the taxes component the taxes
  among themselves), and the top-level total is base + VAT. When no operation rounds
  (every product and sum exact), the grand total is energy.total + power.total +
  taxes.total, and the top-level base and VAT are the sums of the components' bases and
  VATs; in doubles the two sides may differ by the rounding of the additions.
\<close>

theorem C9_components_partition:
  "base (calculateWithVatRounded rnd c p d pp ep t)
     = rnd (rnd (rnd (rnd (rnd (base (power' (components (calculateWithVatRounded rnd c p d pp ep t)))
                               + base (energy (components (calculateWithVatRounded rnd c p d pp ep t))))
                          + cav t) + dgeg t) + iec t) + social t)
   \<and> base (taxes (components (calculateWithVatRounded rnd c p d pp ep t)))
     = rnd (rnd (rnd (cav t + dgeg t) + iec t) + social t)
   \<and> vat (calculateWithVatRounded rnd c p d pp ep t)
     = rnd (rnd (rnd (rnd (rnd (vat (power' (components (calculateWithVatRounded rnd c p d pp ep t)))
                               + vat (energy (components (calculateWithVatRounded rnd c p d pp ep t))))
                          + rnd (cav t * rnd IVA_LOW)) + rnd (dgeg t * rnd IVA_NORMAL))
                + rnd (iec t * rnd IVA_NORMAL)) + 0)
   \<and> vat (taxes (components (calculateWithVatRounded rnd c p d pp ep t)))
     = rnd (rnd (rnd (rnd (cav t * rnd IVA_LOW) + rnd (dgeg t * rnd IVA_NORMAL))
                + rnd (iec t * rnd IVA_NORMAL)) + 0)
   \<and> total (calculateWithVatRounded rnd c p d pp ep t) = rnd (base (calculateWithVatRounded rnd c p d pp ep t) + vat (calculateWithVatRounded rnd c p d pp ep t))
   \<and> total (calculateWithVatRounded (\<lambda>x. x) c p d pp ep t)
     = total (energy (components (calculateWithVatRounded (\<lambda>x. x) c p d pp ep t)))
       + total (power' (components (calculateWithVatRounded (\<lambda>x. x) c p d pp ep t)))
       + total (taxes (components (calculateWithVatRounded (\<lambda>x. x) c p d pp ep t)))
   \<and> base (calculateWithVatRounded (\<lambda>x. x) c p d pp ep t)
     = base (energy (components (calculateWithVatRounded (\<lambda>x. x) c p d pp ep t)))
       + base (power' (components (calculateWithVatRounded (\<lambda>x. x) c p d pp ep t)))
       + base (taxes (components (calculateWithVatRounded (\<lambda>x. x) c p d pp ep t)))
   \<and> vat (calculateWithVatRounded (\<lambda>x. x) c p d pp ep t)
     = vat (energy (components (calculateWithVatRounded (\<lambda>x. x) c p d pp ep t)))
       + vat (power' (components (calculateWithVatRounded (\<lambda>x. x) c p d pp ep t)))
       + vat (taxes (components (calculateWithVatRounded (\<lambda>x. x) c p d pp ep t)))"
proof -
  have grouping:
    "base (calculateWithVatRounded rnd c p d pp ep t)
       = rnd (rnd (rnd (rnd (rnd (base (power' (components (calculateWithVatRounded rnd c p d pp ep t)))
                                 + base (energy (components (calculateWithVatRounded rnd c p d pp ep t))))
                            + cav t) + dgeg t) + iec t) + social t)
     \<and> base (taxes (components (calculateWithVatRounded rnd c p d pp ep t)))
       = rnd (rnd (rnd (cav t + dgeg t) + iec t) + social t)
     \<and> vat (calculateWithVatRounded rnd c p d pp ep t)
       = rnd (rnd (rnd (rnd (rnd (vat (power' (components (calculateWithVatRounded rnd c p d pp ep t)))
                                 + vat (energy (components (calculateWithVatRounded rnd c p d pp ep t))))
                            + rnd (cav t * rnd IVA_LOW)) + rnd (dgeg t * rnd IVA_NORMAL))
                  + rnd (iec t * rnd IVA_NORMAL)) + 0)
     \<and> vat (taxes (components (calculateWithVatRounded rnd c p d pp ep t)))
       = rnd (rnd (rnd (rnd (cav t * rnd IVA_LOW) + rnd (dgeg t * rnd IVA_NORMAL))
                  + rnd (iec t * rnd IVA_NORMAL)) + 0)
     \<and> total (calculateWithVatRounded rnd c p d pp ep t) = rnd (base (calculateWithVatRounded rnd c p d pp ep t) + vat (calculateWithVatRounded rnd c p d pp ep t))"
    unfolding calculateWithVatRounded_def Let_def by (simp only: select_fields simp_thms)
  have exact:
    "total (calculateWithVatRounded (\<lambda>x. x) c p d pp ep t)
       = total (energy (components (calculateWithVatRounded (\<lambda>x. x) c p d pp ep t)))
         + total (power' (components (calculateWithVatRounded (\<lambda>x. x) c p d pp ep t)))
         + total (taxes (components (calculateWithVatRounded (\<lambda>x. x) c p d pp ep t)))
     \<and> base (calculateWithVatRounded (\<lambda>x. x) c p d pp ep t)
       = base (energy (components (calculateWithVatRounded (\<lambda>x. x) c p d pp ep t)))
         + base (power' (components (calculateWithVatRounded (\<lambda>x. x) c p d pp ep t)))
         + base (taxes (components (calculateWithVatRounded (\<lambda>x. x) c p d pp ep t)))
     \<and> vat (calculateWithVatRounded (\<lambda>x. x) c p d pp ep t)
       = vat (energy (components (calculateWithVatRounded (\<lambda>x. x) c p d pp ep t)))
         + vat (power' (components (calculateWithVatRounded (\<lambda>x. x) c p d pp ep t)))
         + vat (taxes (components (calculateWithVatRounded (\<lambda>x. x) c p d pp ep t)))"
    by (simp add: rounded_exact calculateWithVat_def Let_def)
  from grouping exact show ?thesis by (simp only: simp_thms)
qed

subsection \<open>comparison\<close>

lemma comparison_Some:
  "monthlyConsumptionKwh b \<noteq> 0 \<Longrightarrow>
   comparison b x = Some
     \<lparr> currentTotal = total (currentCalculated b),
       newTotal = total (calculateWithVat (monthlyConsumptionKwh b) (contractedPowerKva b)
                (billingPeriodDays b) (powerPricePerDay x) (energyPricePerKwh x) (billTaxes b)),
       currentBase = base (currentCalculated b),
       newBase = base (calculateWithVat (monthlyConsumptionKwh b) (contractedPowerKva b)
                (billingPeriodDays b) (powerPricePerDay x) (energyPricePerKwh x) (billTaxes b)),
       difference = total (currentCalculated b)
         - total (calculateWithVat (monthlyConsumptionKwh b) (contractedPowerKva b)
                (billingPeriodDays b) (powerPricePerDay x) (energyPricePerKwh x) (billTaxes b)),
       isCheaper = (total (calculateWithVat (monthlyConsumptionKwh b) (contractedPowerKva b)
                (billingPeriodDays b) (powerPricePerDay x) (energyPricePerKwh x) (billTaxes b))
                < total (currentCalculated b)),
       yearlySavings = times_number (total (currentCalculated b)
         - total (calculateWithVat (monthlyConsumptionKwh b) (contractedPowerKva b)
                (billingPeriodDays b) (powerPricePerDay x) (energyPricePerKwh x) (billTaxes b)))
           (divide_number 365 (billingPeriodDays b)),
       details =
              \<lparr> energyCost =
                  \<lparr> current = total (energy (components (currentCalculated b))),
                    new = total (energy (components (calculateWithVat (monthlyConsumptionKwh b) (contractedPowerKva b)
                (billingPeriodDays b) (powerPricePerDay x) (energyPricePerKwh x) (billTaxes b)))) \<rparr>,
                powerCost =
                  \<lparr> current = total (power' (components (currentCalculated b))),
                    new = total (power' (components (calculateWithVat (monthlyConsumptionKwh b) (contractedPowerKva b)
                (billingPeriodDays b) (powerPricePerDay x) (energyPricePerKwh x) (billTaxes b)))) \<rparr>,
                taxesCost =
                  \<lparr> current = total (taxes (components (currentCalculated b))),
                    new = total (taxes (components (calculateWithVat (monthlyConsumptionKwh b) (contractedPowerKva b)
                (billingPeriodDays b) (powerPricePerDay x) (energyPricePerKwh x) (billTaxes b)))) \<rparr> \<rparr> \<rparr>"
  by (simp add: comparison_def Let_def)

lemma extrapolation_zero_days:
  "\<not> isFinite (times_number d (divide_number 365 0))
   \<and> (times_number d (divide_number 365 0) = NaN \<longleftrightarrow> d = 0)"
  by (simp add: divide_number_def)

text \<open>
  C5. The comparison is null exactly when the consumption of the bill is 0. Otherwise it
  is a result whose difference is currentTotal - newTotal, whose isCheaper says that
  newTotal is strictly below currentTotal, and whose two totals come from calculateWithVat
  on the same consumption, power, billing days and taxes of the bill (its audiovisual,
  DGEG and IEC taxes and its social tariff), with the bill's own unit prices, or 0 where
  it has none, for the current total and the offer's unit prices for the new one.
\<close>

theorem C5_comparison:
  "(comparison b x = None \<longleftrightarrow> monthlyConsumptionKwh b = 0)
   \<and> (monthlyConsumptionKwh b \<noteq> 0 \<longrightarrow>
        (\<exists>r. comparison b x = Some r
           \<and> difference r = currentTotal r - newTotal r
           \<and> ComparisonResult.isCheaper r = (newTotal r < currentTotal r)
           \<and> currentTotal r = total (calculateWithVat (monthlyConsumptionKwh b)
                 (contractedPowerKva b) (billingPeriodDays b)
                 (case currentPowerPricePerDay b of None \<Rightarrow> 0 | Some v \<Rightarrow> v)
                 (case currentEnergyPricePerKwh b of None \<Rightarrow> 0 | Some v \<Rightarrow> v)
                 \<lparr> cav = audiovisualTax b, dgeg = dgegTax b, iec = ieceTax b,
                   social = socialTariff b \<rparr>)
           \<and> newTotal r = total (calculateWithVat (monthlyConsumptionKwh b)
                 (contractedPowerKva b) (billingPeriodDays b)
                 (powerPricePerDay x) (energyPricePerKwh x)
                 \<lparr> cav = audiovisualTax b, dgeg = dgegTax b, iec = ieceTax b,
                   social = socialTariff b \<rparr>)))"
proof (intro conjI impI)
  show "comparison b x = None \<longleftrightarrow> monthlyConsumptionKwh b = 0"
    by (simp add: comparison_def Let_def)
next
  assume "monthlyConsumptionKwh b \<noteq> 0"
  from comparison_Some [OF this, of x]
  show "\<exists>r. comparison b x = Some r
           \<and> difference r = currentTotal r - newTotal r
           \<and> ComparisonResult.isCheaper r = (newTotal r < currentTotal r)
           \<and> currentTotal r = total (calculateWithVat (monthlyConsumptionKwh b)
                 (contractedPowerKva b) (billingPeriodDays b)
                 (case currentPowerPricePerDay b of None \<Rightarrow> 0 | Some v \<Rightarrow> v)
                 (case currentEnergyPricePerKwh b of None \<Rightarrow> 0 | Some v \<Rightarrow> v)
                 \<lparr> cav = audiovisualTax b, dgeg = dgegTax b, iec = ieceTax b,
                   social = socialTariff b \<rparr>)
           \<and> newTotal r = total (calculateWithVat (monthlyConsumptionKwh b)
                 (contractedPowerKva b) (billingPeriodDays b)
                 (powerPricePerDay x) (energyPricePerKwh x)
                 \<lparr> cav = audiovisualTax b, dgeg = dgegTax b, iec = ieceTax b,
                   social = socialTariff b \<rparr>)"
    by (cases "currentPowerPricePerDay b"; cases "currentEnergyPricePerKwh b")
       (simp_all add: currentCalculated_def billTaxes_def)
qed

theorem C5_comparison_witness:
  "monthlyConsumptionKwh exampleBill \<noteq> 0
   \<and> map_option currentTotal (comparison exampleBill (offer ''B'' (10 / 100) (15 / 100)))
        = Some (55083 / 1000)
   \<and> map_option newTotal (comparison exampleBill (offer ''B'' (10 / 100) (15 / 100)))
        = Some (46623 / 1000)
   \<and> map_option difference (comparison exampleBill (offer ''B'' (10 / 100) (15 / 100)))
        = Some (846 / 100)
   \<and> map_option ComparisonResult.isCheaper
        (comparison exampleBill (offer ''B'' (10 / 100) (15 / 100))) = Some True
   \<and> map_option currentTotal
        (comparison (exampleBill\<lparr>currentPowerPricePerDay := None\<rparr>)
           (offer ''B'' (10 / 100) (15 / 100)))
        = Some (50313 / 1000)
   \<and> map_option ComparisonResult.isCheaper
        (comparison exampleBill (offer ''same'' (15 / 100) (18 / 100))) = Some False
   \<and> comparison (exampleBill\<lparr>monthlyConsumptionKwh := 0\<rparr>) (offer ''B'' (10 / 100) (15 / 100))
        = None"
  using C5_comparison [of exampleBill "offer ''B'' (10 / 100) (15 / 100)"]
        C5_comparison [of "exampleBill\<lparr>monthlyConsumptionKwh := 0\<rparr>"
          "offer ''B'' (10 / 100) (15 / 100)"]
  by (simp add: bill_defs comparison_def calc_defs)

subsection \<open>multiComparisonResults\<close>

lemma rankOne_fields:
  "originalIndex (rankOne b (i, s)) = i"
  "calculatedTotal (rankOne b (i, s)) = total (calculateWithVat (monthlyConsumptionKwh b)
     (contractedPowerKva b) (billingPeriodDays b) (powerPricePerDay (SavedSimulation.newOffer s))
     (energyPricePerKwh (SavedSimulation.newOffer s)) (billTaxes b))"
  "SavedSimulation.truncate (rankOne b (i, s)) = s"
  "RankedSimulation.yearlySavings (rankOne b (i, s)) =
     times_number (total (currentCalculated b) - total (calculateWithVat (monthlyConsumptionKwh b)
     (contractedPowerKva b) (billingPeriodDays b) (powerPricePerDay (SavedSimulation.newOffer s))
     (energyPricePerKwh (SavedSimulation.newOffer s)) (billTaxes b))) (divide_number 365 (billingPeriodDays b))"
  by (simp_all add: rankOne_def Let_def SavedSimulation.truncate_def)





lemma multi_members:
  "r \<in> set (multiComparisonResults b sims) \<Longrightarrow>
   \<exists>i < length sims. r = rankOne b (i, sims ! i)"
  by (auto simp: multiComparisonResults_def in_set_enumerate_eq split: if_splits)





subsection \<open>The yearly extrapolation\<close>

text \<open>
  C4, as the specification gives it, has the extrapolation difference x 365 / billingDays
  guarded for a bill of zero days. Neither the comparison nor the ranking tests the days:
  the bill below has zero days and a consumption of 200 kWh, and the yearly savings are
  plus infinity for a cheaper offer, NaN for an offer at the current prices, and infinite
  for every ranked offer.
\<close>

theorem C4_zero_days_counterexample:
  "billingPeriodDays zeroDaysBill = 0 \<and> monthlyConsumptionKwh zeroDaysBill \<noteq> 0
   \<and> map_option ComparisonResult.yearlySavings
        (comparison zeroDaysBill (offer ''B'' (10 / 100) (15 / 100))) = Some PosInfinity
   \<and> map_option ComparisonResult.yearlySavings
        (comparison zeroDaysBill (offer ''same'' (15 / 100) (18 / 100))) = Some NaN
   \<and> map RankedSimulation.yearlySavings (multiComparisonResults zeroDaysBill exampleSims)
        = [PosInfinity, NegInfinity, NegInfinity]"
  by (simp add: bill_defs comparison_def multiComparisonResults_def rankOne_def
      divide_number_def enumerate_eq_zip calc_defs)

text \<open>
  C4, amended. For every bill with billingPeriodDays = 0 and a consumption other than 0,
  the extrapolation difference x (365 / billingDays) is computed without a guard, and the
  yearlySavings of the comparison and of every ranked offer is never a finite number: it
  is NaN when the difference (the current total minus the total of the offer) is 0, and
  an infinity otherwise.
\<close>

theorem C4_yearly_savings_unguarded:
  "monthlyConsumptionKwh b \<noteq> 0 \<and> billingPeriodDays b = 0 \<longrightarrow>
     (\<exists>r. comparison b x = Some r
        \<and> \<not> isFinite (ComparisonResult.yearlySavings r)
        \<and> (ComparisonResult.yearlySavings r = NaN \<longleftrightarrow> difference r = 0))
     \<and> (\<forall>s \<in> set (multiComparisonResults b sims).
           \<not> isFinite (RankedSimulation.yearlySavings s)
           \<and> (RankedSimulation.yearlySavings s = NaN
                \<longleftrightarrow> total (currentCalculated b) - calculatedTotal s = 0))"
proof (intro impI conjI ballI)
  assume h: "monthlyConsumptionKwh b \<noteq> 0 \<and> billingPeriodDays b = 0"
  then have c: "monthlyConsumptionKwh b \<noteq> 0" by simp
  show "\<exists>r. comparison b x = Some r
        \<and> \<not> isFinite (ComparisonResult.yearlySavings r)
        \<and> (ComparisonResult.yearlySavings r = NaN \<longleftrightarrow> difference r = 0)"
    using comparison_Some [OF c, of x] h extrapolation_zero_days by simp
next
  fix s
  assume h: "monthlyConsumptionKwh b \<noteq> 0 \<and> billingPeriodDays b = 0"
    and "s \<in> set (multiComparisonResults b sims)"
  then obtain i where s: "s = rankOne b (i, sims ! i)"
    using multi_members by blast
  show "\<not> isFinite (RankedSimulation.yearlySavings s)"
    using h extrapolation_zero_days by (simp add: s rankOne_fields)
  show "RankedSimulation.yearlySavings s = NaN
          \<longleftrightarrow> total (currentCalculated b) - calculatedTotal s = 0"
    using h extrapolation_zero_days by (simp add: s rankOne_fields)
qed

theorem C4_yearly_savings_unguarded_witness:
  "(monthlyConsumptionKwh zeroDaysBill \<noteq> 0 \<and> billingPeriodDays zeroDaysBill = 0)
   \<and> map_option ComparisonResult.yearlySavings
        (comparison zeroDaysBill (offer ''B'' (10 / 100) (15 / 100))) = Some PosInfinity
   \<and> map_option difference
        (comparison zeroDaysBill (offer ''B'' (10 / 100) (15 / 100))) = Some (687 / 100)
   \<and> map RankedSimulation.yearlySavings
        (multiComparisonResults zeroDaysBill
           (exampleSims @ [saved (offer ''same'' (15 / 100) (18 / 100))]))
        = [PosInfinity, NaN, NegInfinity, NegInfinity]
   \<and> map calculatedTotal
        (multiComparisonResults zeroDaysBill
           (exampleSims @ [saved (offer ''same'' (15 / 100) (18 / 100))]))
        = [43443 / 1000, 50313 / 1000, 54893 / 1000, 54893 / 1000]"
  using C4_yearly_savings_unguarded [of zeroDaysBill "offer ''B'' (10 / 100) (15 / 100)"
          "exampleSims @ [saved (offer ''same'' (15 / 100) (18 / 100))]"]
  by (simp add: bill_defs comparison_def multiComparisonResults_def rankOne_def
      divide_number_def enumerate_eq_zip calc_defs)

subsection \<open>The batch loader\<close>

lemma tryBlock_eq:
  "(case tryBlock parse ev ns of Inl e \<Rightarrow> ns | Inr ns' \<Rightarrow> ns')
     = ns @ map (stored parse) (filter (accepted parse) [ev])"
  by (simp add: tryBlock_def accepted_def stored_def split: option.splits sum.splits)

lemma onload_fold_pending:
  "k + length evs < n \<Longrightarrow>
   fold (onload parse n) evs ((ns, k), st)
     = ((ns @ map (stored parse) (filter (accepted parse) evs), k + length evs), st)"
proof (induction evs arbitrary: ns k)
  case Nil
  then show ?case by simp
next
  case (Cons ev evs)
  let ?ns = "ns @ map (stored parse) (filter (accepted parse) [ev])"
  from Cons.prems have neq: "k + 1 \<noteq> n" and len: "(k + 1) + length evs < n" by auto
  have step: "onload parse n ev ((ns, k), st) = ((?ns, k + 1), st)"
    using neq by (simp add: onload_def Let_def tryBlock_eq)
  have "fold (onload parse n) (ev # evs) ((ns, k), st)
      = fold (onload parse n) evs ((?ns, k + 1), st)"
    by (simp add: step)
  also have "\<dots> = ((?ns @ map (stored parse) (filter (accepted parse) evs),
                   (k + 1) + length evs), st)"
    by (rule Cons.IH [OF len])
  finally show ?case by simp
qed

lemma onload_fold_last:
  "k + length evs = n \<Longrightarrow> evs \<noteq> [] \<Longrightarrow>
   snd (fold (onload parse n) evs ((ns, k), st))
     = st\<lparr>multiSimulations :=
            multiSimulations st @ ns @ map (stored parse) (filter (accepted parse) evs)\<rparr>"
proof (induction evs arbitrary: ns k st)
  case Nil
  then show ?case by simp
next
  case (Cons ev evs)
  let ?ns = "ns @ map (stored parse) (filter (accepted parse) [ev])"
  show ?case
  proof (cases "evs = []")
    case True
    with Cons.prems have "k + 1 = n" by simp
    then show ?thesis
      using True by (simp add: onload_def Let_def tryBlock_eq)
  next
    case False
    with Cons.prems have neq: "k + 1 \<noteq> n" and len: "(k + 1) + length evs = n" by auto
    have step: "onload parse n ev ((ns, k), st) = ((?ns, k + 1), st)"
      using neq by (simp add: onload_def Let_def tryBlock_eq)
    have "snd (fold (onload parse n) (ev # evs) ((ns, k), st))
        = snd (fold (onload parse n) evs ((?ns, k + 1), st))"
      by (simp add: step)
    also have "\<dots> = st\<lparr>multiSimulations :=
            multiSimulations st @ ?ns @ map (stored parse) (filter (accepted parse) evs)\<rparr>"
      by (rule Cons.IH [OF len False])
    finally show ?thesis by simp
  qed
qed

lemma handle_all_read:
  "handleAddMultiSimulations parse (length evs) evs st
     = st\<lparr>multiSimulations :=
            multiSimulations st @ map (stored parse) (filter (accepted parse) evs)\<rparr>"
proof (cases "evs = []")
  case True
  then show ?thesis by (simp add: handleAddMultiSimulations_def)
next
  case False
  then show ?thesis
    using onload_fold_last [of 0 evs "length evs" parse "[]" st]
    by (simp add: handleAddMultiSimulations_def)
qed

lemma handle_pending:
  "length evs < nFiles \<Longrightarrow> handleAddMultiSimulations parse nFiles evs st = st"
  using onload_fold_pending [of 0 evs nFiles parse "[]" st]
  by (simp add: handleAddMultiSimulations_def)

text \<open>
  C10, as the specification gives it, has the loader add exactly the files that parse and
  contain a newOffer field. The test in the source is \<^verbatim>\<open>if (json.newOffer)\<close>: the one
  file of the batch below is read and parses to an object that has the field, with the
  value null, and it is not added.
\<close>

theorem C10_null_offer_counterexample:
  "exampleParse nullOfferText = Some nullOfferDoc
   \<and> hasField nullOfferDoc ''newOffer''
   \<and> multiSimulations
        (handleAddMultiSimulations exampleParse 1 [loadEvent nullOfferText] exampleState)
       = multiSimulations exampleState"
  by (simp add: handleAddMultiSimulations_def onload_def tryBlock_def Let_def loadEvent_def
      exampleParse_def nullOfferText_def offerOnlyText_def nullOfferDoc_def hasField_def)

text \<open>
  C10, amended. The batch loader updates the offer collection once, when the last of the
  chosen files has been read (the onload event that brings the count to files.length);
  before that nothing is appended. It then appends, in the order in which the reads
  completed, exactly those files whose text is not empty, parses as JSON to a value other
  than null and has a truthy newOffer property (not null, false, 0 or the empty string); a
  document without billData, version or timestamp is accepted as well, and a missing or
  falsy timestamp is set to the current time. Every other file, one that does not parse
  among them, is skipped. In no case does the loader change the error message and status
  shown to the user, the loaded bill, the active offer or the offers already in the
  collection.
\<close>

theorem C10_batch_loader:
  "(length evs = nFiles \<longrightarrow>
      multiSimulations (handleAddMultiSimulations parse nFiles evs st)
        = multiSimulations st @ map (stored parse) (filter (accepted parse) evs))
   \<and> (length evs < nFiles \<longrightarrow>
      multiSimulations (handleAddMultiSimulations parse nFiles evs st) = multiSimulations st)
   \<and> (length evs \<le> nFiles \<longrightarrow>
      billData (handleAddMultiSimulations parse nFiles evs st) = billData st
      \<and> newOffer (handleAddMultiSimulations parse nFiles evs st) = newOffer st
      \<and> status (handleAddMultiSimulations parse nFiles evs st) = status st
      \<and> errorMsg (handleAddMultiSimulations parse nFiles evs st) = errorMsg st)"
proof (intro conjI impI)
  assume "length evs = nFiles"
  then show "multiSimulations (handleAddMultiSimulations parse nFiles evs st)
        = multiSimulations st @ map (stored parse) (filter (accepted parse) evs)"
    using handle_all_read [of parse evs st] by simp
next
  assume "length evs < nFiles"
  then show "multiSimulations (handleAddMultiSimulations parse nFiles evs st)
      = multiSimulations st"
    by (simp add: handle_pending)
next
  assume le: "length evs \<le> nFiles"
  have "handleAddMultiSimulations parse nFiles evs st = st
      \<or> handleAddMultiSimulations parse nFiles evs st
          = st\<lparr>multiSimulations :=
               multiSimulations st @ map (stored parse) (filter (accepted parse) evs)\<rparr>"
  proof (cases "length evs = nFiles")
    case True
    then show ?thesis using handle_all_read [of parse evs st] by simp
  next
    case False
    with le have "length evs < nFiles" by simp
    then show ?thesis by (simp add: handle_pending)
  qed
  then show "billData (handleAddMultiSimulations parse nFiles evs st) = billData st"
    and "newOffer (handleAddMultiSimulations parse nFiles evs st) = newOffer st"
    and "status (handleAddMultiSimulations parse nFiles evs st) = status st"
    and "errorMsg (handleAddMultiSimulations parse nFiles evs st) = errorMsg st"
    by auto
qed

theorem C10_batch_loader_witness:
  "length [loadEvent brokenText, loadEvent offerOnlyText, loadEvent ''null'',
           loadEvent nullOfferText] = 4
   \<and> multiSimulations
     (handleAddMultiSimulations exampleParse 4
        [loadEvent brokenText, loadEvent offerOnlyText, loadEvent ''null'',
         loadEvent nullOfferText] exampleState)
     = [JObject [(''newOffer'',
          JObject [(''supplierName'', JString ''A''), (''powerPricePerDay'', JNumber (2 / 10))]),
          (''timestamp'', JString exampleClock)]]
   \<and> errorMsg
     (handleAddMultiSimulations exampleParse 4
        [loadEvent brokenText, loadEvent offerOnlyText, loadEvent ''null'',
         loadEvent nullOfferText] exampleState) = None
   \<and> billData
     (handleAddMultiSimulations exampleParse 4
        [loadEvent brokenText, loadEvent offerOnlyText, loadEvent ''null'',
         loadEvent nullOfferText] exampleState) = exampleBill
   \<and> length [loadEvent offerOnlyText, loadEvent brokenText] < 3
   \<and> multiSimulations
     (handleAddMultiSimulations exampleParse 3
        [loadEvent offerOnlyText, loadEvent brokenText] exampleState) = []"
  using C10_batch_loader [of
        "[loadEvent brokenText, loadEvent offerOnlyText, loadEvent ''null'',
          loadEvent nullOfferText]" 4 exampleParse exampleState]
        C10_batch_loader [of "[loadEvent offerOnlyText, loadEvent brokenText]" 3
          exampleParse exampleState]
  by (simp add: accepted_def stored_def fillTimestamp_def loadEvent_def exampleParse_def
      nullOfferText_def offerOnlyText_def brokenText_def nullOfferDoc_def offerOnlyDoc_def
      exampleState_def)

end
